theory Spec2Isabelle
  imports Complex_Main "HOL-Library.Sublist"
begin

section \<open>Values of the host language\<close>

text \<open>
  The logger of cvat-core is JavaScript. Its payloads are ordinary JavaScript values, so
  the embedding starts with the values the two source files can tell apart: the
  primitives, and objects held by reference in a heap. A number is a finite rational or
  one of the three non-finite values; an array behaves, for every operation used here
  (spread, \<open>in\<close>, property reads, \<open>JSON.stringify\<close> raising or not), as an object whose keys
  are its indices, and is represented as one. Functions, symbols, accessors and \<open>toJSON\<close>
  methods inside payloads are outside the model.
\<close>

datatype number = Finite rat | NaN | Infinity | NegInfinity

type_synonym addr = nat

datatype jsval =
    JUndefined
  | JNull
  | JBool bool
  | JNum number
  | JStr string
  | JBigInt int
  | JRef addr

text \<open>An object is the list of its own enumerable properties, in insertion order.\<close>

type_synonym props = "(string \<times> jsval) list"

type_synonym heap = "props list"

text \<open>\<open>typeof v\<close>; \<open>typeof null\<close> is \<open>object\<close>.\<close>

fun typeof :: "jsval \<Rightarrow> string" where
  "typeof JUndefined = ''undefined''"
| "typeof JNull = ''object''"
| "typeof (JBool b) = ''boolean''"
| "typeof (JNum n) = ''number''"
| "typeof (JStr s) = ''string''"
| "typeof (JBigInt n) = ''bigint''"
| "typeof (JRef a) = ''object''"

text \<open>The truth value of a condition \<open>if (v)\<close>.\<close>

fun truthy :: "jsval \<Rightarrow> bool" where
  "truthy JUndefined = False"
| "truthy JNull = False"
| "truthy (JBool b) = b"
| "truthy (JNum (Finite q)) = (q \<noteq> 0)"
| "truthy (JNum NaN) = False"
| "truthy (JNum Infinity) = True"
| "truthy (JNum NegInfinity) = True"
| "truthy (JStr s) = (s \<noteq> [])"
| "truthy (JBigInt n) = (n \<noteq> 0)"
| "truthy (JRef a) = True"

subsection \<open>Errors\<close>

text \<open>
  \<open>ArgumentError\<close> is the exception class of cvat-core that the specification calls a
  validation error; \<open>TypeError\<close> is the host's own. \<open>TransportError\<close> stands for whatever
  the server proxy rejects with.
\<close>

datatype error = ArgumentError string | TypeError string | TransportError string

subsection \<open>Decimal text of a natural number\<close>

definition digit :: "nat \<Rightarrow> char" where
  "digit d = char_of (48 + d)"

fun decimal :: "nat \<Rightarrow> string" where
  "decimal n = (if n < 10 then [digit n] else decimal (n div 10) @ [digit (n mod 10)])"

declare decimal.simps [simp del]

subsection \<open>Properties\<close>

text \<open>\<open>key in obj\<close> for an object without inherited properties of that name.\<close>

definition has_prop :: "string \<Rightarrow> props \<Rightarrow> bool" where
  "has_prop k ps = (map_of ps k \<noteq> None)"

text \<open>\<open>obj.key\<close>: the value, or \<open>undefined\<close> when the key is absent.\<close>

definition read_prop :: "string \<Rightarrow> props \<Rightarrow> jsval" where
  "read_prop k ps = (case map_of ps k of Some v \<Rightarrow> v | None \<Rightarrow> JUndefined)"

text \<open>\<open>obj.key = v\<close>: an existing key keeps its place, a new key goes last.\<close>

fun set_prop :: "string \<Rightarrow> jsval \<Rightarrow> props \<Rightarrow> props" where
  "set_prop k v [] = [(k, v)]"
| "set_prop k v (p # ps) = (if fst p = k then (k, v) # ps else p # set_prop k v ps)"

text \<open>\<open>delete obj.key\<close>.\<close>

definition delete_prop :: "string \<Rightarrow> props \<Rightarrow> props" where
  "delete_prop k ps = filter (\<lambda>p. fst p \<noteq> k) ps"

text \<open>
  The own enumerable properties that a spread \<open>{ ...v }\<close> copies: those of the object a
  reference points to, the indexed characters of a string, and nothing for the other
  primitives (\<open>undefined\<close> and \<open>null\<close> included).
\<close>

fun own_props :: "heap \<Rightarrow> jsval \<Rightarrow> props" where
  "own_props h (JRef a) = (if a < length h then h ! a else [])"
| "own_props h (JStr s) = map (\<lambda>i. (decimal i, JStr [s ! i])) [0..<length s]"
| "own_props h v = []"

text \<open>\<open>{ ...a, ...b }\<close> once \<open>a\<close> and \<open>b\<close> are property lists: the properties of \<open>b\<close> are
  assigned one after the other onto a copy of \<open>a\<close>.\<close>

definition spread :: "props \<Rightarrow> props \<Rightarrow> props" where
  "spread a b = fold (\<lambda>p. set_prop (fst p) (snd p)) b a"

text \<open>
  \<open>payload[key]\<close> on a value that is neither \<open>undefined\<close> nor \<open>null\<close> (on those two the
  read raises a \<open>TypeError\<close>, which the callers below test for first). The primitives
  have no property under the names this program reads.
\<close>

definition nullish :: "jsval \<Rightarrow> bool" where
  "nullish v = (v = JUndefined \<or> v = JNull)"

definition lookup :: "heap \<Rightarrow> jsval \<Rightarrow> string \<Rightarrow> jsval" where
  "lookup h v k = read_prop k (own_props h v)"

definition cannot_read :: "string \<Rightarrow> jsval \<Rightarrow> error" where
  "cannot_read k v =
     TypeError (''Cannot read property '' @ [CHR 0x27] @ k @ [CHR 0x27] @ '' of ''
       @ (if v = JNull then ''null'' else ''undefined''))"

text \<open>\<open>Number.isInteger(v)\<close>: a number, finite, without fractional part.\<close>

fun Number_isInteger :: "jsval \<Rightarrow> bool" where
  "Number_isInteger (JNum (Finite q)) = (of_int \<lfloor>q\<rfloor> = q)"
| "Number_isInteger v = False"

text \<open>\<open>v < r\<close> for a numeric \<open>v\<close>. The source evaluates its comparisons only to the right
  of \<open>!Number.isInteger(v) ||\<close>, that is on finite numbers.\<close>

fun below :: "jsval \<Rightarrow> rat \<Rightarrow> bool" where
  "below (JNum (Finite q)) r = (q < r)"
| "below (JNum NegInfinity) r = True"
| "below v r = False"

subsection \<open>\<open>JSON.stringify\<close>\<close>

text \<open>
  The program calls \<open>JSON.stringify\<close> only to learn whether it raises, and discards the
  text. On the values of this model it raises in two cases: a BigInt is met, or an object
  is met again while it is still being serialised (it is on the stack of enclosing
  objects). The traversal visits the properties in order and stops at the first failure.
\<close>

datatype json_error = Circular | BigIntValue

function stringify_value :: "heap \<Rightarrow> addr list \<Rightarrow> jsval \<Rightarrow> json_error option"
  and stringify_props :: "heap \<Rightarrow> addr list \<Rightarrow> props \<Rightarrow> json_error option" where
  "stringify_value h stack (JRef a) =
     (if a \<in> set stack then Some Circular
      else if a < length h then stringify_props h (a # stack) (h ! a)
      else None)"
| "stringify_value h stack (JBigInt n) = Some BigIntValue"
| "stringify_value h stack JUndefined = None"
| "stringify_value h stack JNull = None"
| "stringify_value h stack (JBool b) = None"
| "stringify_value h stack (JNum n) = None"
| "stringify_value h stack (JStr s) = None"
| "stringify_props h stack [] = None"
| "stringify_props h stack (p # ps) =
     (case stringify_value h stack (snd p) of
        Some e \<Rightarrow> Some e
      | None \<Rightarrow> stringify_props h stack ps)"
  by pat_completeness auto

termination
proof (relation "inv_image (less_than <*lex*> less_than)
    (\<lambda>x. case x of
        Inl (h, stack, v) \<Rightarrow> (length h - card (set stack \<inter> {..<length h}), 0)
      | Inr (h, stack, ps) \<Rightarrow> (length h - card (set stack \<inter> {..<length h}), Suc (length ps)))",
    goal_cases)
  case 1
  show ?case by (intro wf_inv_image wf_lex_prod wf_less_than)
next
  case (2 h stack a)
  have fin: "finite (set stack \<inter> {..<length h})" by simp
  from 2 have "set stack \<inter> {..<length h} \<subset> {..<length h}" by auto
  then have "card (set stack \<inter> {..<length h}) < card {..<length h}"
    by (intro psubset_card_mono) simp_all
  moreover from 2 have "set (a # stack) \<inter> {..<length h} = insert a (set stack \<inter> {..<length h})"
    by auto
  moreover from 2 have "a \<notin> set stack \<inter> {..<length h}" by simp
  ultimately show ?case using fin by simp
next
  case 3
  show ?case by simp
next
  case 4
  show ?case by simp
qed

definition JSON_stringify :: "heap \<Rightarrow> jsval \<Rightarrow> json_error option" where
  "JSON_stringify h v = stringify_value h [] v"

text \<open>\<open>error.toString()\<close> of the \<open>TypeError\<close> raised by \<open>JSON.stringify\<close>, in V8's wording
  (its first line).\<close>

fun toString :: "json_error \<Rightarrow> string" where
  "toString Circular = ''TypeError: Converting circular structure to JSON''"
| "toString BigIntValue = ''TypeError: Do not know how to serialize a BigInt''"


section \<open>The host and the enumeration of log types\<close>

text \<open>
  Modelled from the spec: the enumeration \<open>LogType\<close> of \<open>enums.js\<close>, which is not among
  the sources. The specification describes the type of an event as an enumerated tag;
  the members that \<open>log.js\<close> names are constructors here, and \<open>otherLogType n\<close> is any tag
  that is none of them. Comparison with \<open>===\<close> is equality of tags.
\<close>

datatype LogType =
    deleteObject
  | sendTaskInfo
  | loadJob
  | mergeObjects
  | copyObject
  | propagateObject
  | undoAction
  | redoAction
  | sendUserActivity
  | sendException
  | otherLogType nat

text \<open>
  What a call reads from its host: the clock (\<open>Date.now()\<close>, \<open>new Date()\<close>, in
  milliseconds), the focus of the document (\<open>None\<close> where there is no \<open>window\<close>), and the
  text that the tag of the call takes inside a template literal, \<open>${logType}\<close>, which
  depends on the values of \<open>enums.js\<close>.
\<close>

record host =
  Date_now :: int
  hasFocus :: "bool option"
  logType_text :: string

section \<open>\<open>log.js\<close>\<close>

text \<open>
  A function value registered as close hook. The code of a hook belongs to the caller;
  the model records that it was called.
\<close>

datatype closure = Callback nat

text \<open>
  The class \<open>Log\<close>. \<open>payload\<close> is a reference to an object of the heap, \<open>onCloseCallback\<close>
  is \<open>None\<close> for \<open>null\<close>, \<open>time\<close> is the instant in milliseconds, \<open>isActive\<close> is \<open>None\<close> for
  \<open>undefined\<close>. \<open>isDurable\<close> is whatever value the caller passed.
\<close>

record Log =
  type :: LogType
  isDurable :: jsval
  payload :: addr
  onCloseCallback :: "closure option"
  time :: int
  isActive :: "bool option"

text \<open>
  The object \<open>dump\<close> returns. An absent key is \<open>None\<close>. \<open>body_time\<close> is the instant whose
  \<open>toISOString()\<close> text is sent; \<open>body_payload\<close> holds the properties of the fresh object
  under the key \<open>payload\<close>.
\<close>

record body =
  body_name :: LogType
  body_time :: int
  body_is_active :: "bool option"
  body_client_id :: "jsval option"
  body_job_id :: "jsval option"
  body_task_id :: "jsval option"
  body_payload :: props

text \<open>The singleton of \<open>LoggerStorage\<close>; \<open>collection\<close> holds references to \<open>Log\<close> objects.\<close>

record LoggerStorage =
  clientID :: string
  collection :: "nat list"

text \<open>
  The state of the program: the heap of plain objects, the \<open>Log\<close> objects (a reference
  to one is its index), the storage, and the trace of hook calls.
\<close>

record world =
  heap :: heap
  logs :: "Log list"
  storage :: LoggerStorage
  called :: "closure list"

definition not_serializable :: "json_error \<Rightarrow> error" where
  "not_serializable e = ArgumentError (''Log payload must be JSON serializable. '' @ toString e)"

text \<open>The constructor of \<open>Log\<close>: the new object and the heap with the copy \<open>{ ...payload }\<close>.\<close>

definition Log_constructor ::
  "host \<Rightarrow> LogType \<Rightarrow> jsval \<Rightarrow> jsval \<Rightarrow> heap \<Rightarrow> error + (Log \<times> heap)" where
  "Log_constructor env logType isDurable' payload' h =
     (case JSON_stringify h payload' of
        Some e \<Rightarrow> Inl (not_serializable e)
      | None \<Rightarrow>
          Inr (\<lparr>type = logType, isDurable = isDurable', payload = length h,
                onCloseCallback = None, time = Date_now env, isActive = hasFocus env\<rparr>,
               h @ [own_props h payload']))"

definition onClose :: "closure \<Rightarrow> nat \<Rightarrow> world \<Rightarrow> world" where
  "onClose callback this w =
     w\<lparr>logs := (logs w)[this := (logs w ! this)\<lparr>onCloseCallback := Some callback\<rparr>]\<rparr>"

definition dump :: "heap \<Rightarrow> Log \<Rightarrow> body" where
  "dump h this =
     (let p0 = own_props h (JRef (payload this));
          b0 = \<lparr>body_name = type this, body_time = time this, body_is_active = None,
                body_client_id = None, body_job_id = None, body_task_id = None,
                body_payload = []\<rparr>;
          b1 = (case isActive this of Some a \<Rightarrow> b0\<lparr>body_is_active := Some a\<rparr> | None \<Rightarrow> b0);
          b2 = (if has_prop ''client_id'' p0
                then b1\<lparr>body_client_id := Some (read_prop ''client_id'' p0)\<rparr> else b1);
          p1 = (if has_prop ''client_id'' p0 then delete_prop ''client_id'' p0 else p0);
          b3 = (if has_prop ''job_id'' p1
                then b2\<lparr>body_job_id := Some (read_prop ''job_id'' p1)\<rparr> else b2);
          p2 = (if has_prop ''job_id'' p1 then delete_prop ''job_id'' p1 else p1);
          b4 = (if has_prop ''task_id'' p2
                then b3\<lparr>body_task_id := Some (read_prop ''task_id'' p2)\<rparr> else b3);
          p3 = (if has_prop ''task_id'' p2 then delete_prop ''task_id'' p2 else p2)
      in b4\<lparr>body_payload := p3\<rparr>)"

text \<open>Calling a hook.\<close>

definition invoke :: "closure \<Rightarrow> world \<Rightarrow> world" where
  "invoke c w = w\<lparr>called := called w @ [c]\<rparr>"

text \<open>
  \<open>Log.prototype.close.implementation\<close>, called on the \<open>Log\<close> object \<open>this\<close>. Both checks
  come before any write. The duration is written into the object \<open>this.payload\<close> points
  to; the merged payload is a new object. The method \<open>close(payload = {})\<close> reaches this
  function through the plugin registry of \<open>plugins.js\<close>, with a new empty object in the
  place of an omitted argument and every other argument, \<open>null\<close> included, as it is.
\<close>

definition close_implementation :: "host \<Rightarrow> jsval \<Rightarrow> nat \<Rightarrow> world \<Rightarrow> error + world" where
  "close_implementation env payload' this w =
     (if typeof payload' \<noteq> ''object'' then Inl (ArgumentError ''Payload must be an object'')
      else case JSON_stringify (heap w) payload' of
        Some e \<Rightarrow> Inl (not_serializable e)
      | None \<Rightarrow>
          (let l = logs w ! this;
               duration = JNum (Finite (of_int (Date_now env - time l)));
               h1 = (heap w)[payload l := set_prop ''duration'' duration (heap w ! payload l)];
               merged = spread (own_props h1 (JRef (payload l))) (own_props h1 payload');
               l' = l\<lparr>payload := length h1\<rparr>;
               w' = w\<lparr>heap := h1 @ [merged], logs := (logs w)[this := l']\<rparr>
           in Inr (case onCloseCallback l' of Some c \<Rightarrow> invoke c w' | None \<Rightarrow> w')))"

subsection \<open>The subclasses and the factory\<close>

definition quoted :: "string \<Rightarrow> string" where
  "quoted s = [CHR 0x22] @ s @ [CHR 0x22]"

definition DeleteObjectLog_constructor ::
  "host \<Rightarrow> LogType \<Rightarrow> jsval \<Rightarrow> jsval \<Rightarrow> heap \<Rightarrow> error + (Log \<times> heap)" where
  "DeleteObjectLog_constructor env logType isDurable' payload' h =
     (case Log_constructor env logType isDurable' payload' h of
        Inl e \<Rightarrow> Inl e
      | Inr r \<Rightarrow>
          if nullish payload' then Inl (cannot_read ''count'' payload')
          else if \<not> Number_isInteger (lookup (snd r) payload' ''count'')
                  \<or> below (lookup (snd r) payload' ''count'') 1
          then Inl (ArgumentError (''The field '' @ quoted ''count'' @ '' is required for ''
                      @ quoted (logType_text env) @ '' log'' @ ''It must be a positive integer''))
          else Inr r)"

definition generateError :: "host \<Rightarrow> LogType \<Rightarrow> string \<Rightarrow> string \<Rightarrow> error" where
  "generateError env logType name range' =
     ArgumentError (''The field '' @ quoted name @ '' is required for ''
       @ quoted (logType_text env) @ '' log. '' @ range')"

definition SendTaskInfoLog_constructor ::
  "host \<Rightarrow> LogType \<Rightarrow> jsval \<Rightarrow> jsval \<Rightarrow> heap \<Rightarrow> error + (Log \<times> heap)" where
  "SendTaskInfoLog_constructor env logType isDurable' payload' h =
     (case Log_constructor env logType isDurable' payload' h of
        Inl e \<Rightarrow> Inl e
      | Inr r \<Rightarrow>
          let field = lookup (snd r) payload' in
          if nullish payload' then Inl (cannot_read ''track count'' payload')
          else if \<not> Number_isInteger (field ''track count'') \<or> below (field ''track count'') 0
          then Inl (generateError env logType ''track count'' ''It must be an integer not less than 0'')
          else if \<not> Number_isInteger (field ''frame count'') \<or> below (field ''frame count'') 1
          then Inl (generateError env logType ''frame count'' ''It must be an integer not less than 1'')
          else if \<not> Number_isInteger (field ''object count'') \<or> below (field ''object count'') 0
          then Inl (generateError env logType ''object count'' ''It must be an integer not less than 0'')
          else if \<not> Number_isInteger (field ''box count'') \<or> below (field ''box count'') 0
          then Inl (generateError env logType ''box count'' ''It must be an integer not less than 0'')
          else if \<not> Number_isInteger (field ''polygon count'') \<or> below (field ''polygon count'') 0
          then Inl (generateError env logType ''polygon count'' ''It must be an integer not less than 0'')
          else if \<not> Number_isInteger (field ''polyline count'') \<or> below (field ''polyline count'') 0
          then Inl (generateError env logType ''polyline count'' ''It must be an integer not less than 0'')
          else if \<not> Number_isInteger (field ''points count'') \<or> below (field ''points count'') 0
          then Inl (generateError env logType ''points count'' ''It must be an integer not less than 0'')
          else Inr r)"

text \<open>\<open>logFactory\<close>. A call that reaches the end of the function without \<open>return\<close> yields
  \<open>undefined\<close>: \<open>Inr None\<close>.\<close>

definition returned :: "error + (Log \<times> heap) \<Rightarrow> error + (Log \<times> heap) option" where
  "returned r = (case r of Inl e \<Rightarrow> Inl e | Inr x \<Rightarrow> Inr (Some x))"

definition logFactory ::
  "host \<Rightarrow> LogType \<Rightarrow> jsval \<Rightarrow> jsval \<Rightarrow> heap \<Rightarrow> error + (Log \<times> heap) option" where
  "logFactory env logType isDurable' payload' h =
     (if logType = deleteObject
      then returned (DeleteObjectLog_constructor env logType isDurable' payload' h)
      else if logType = sendTaskInfo
      then returned (SendTaskInfoLog_constructor env logType isDurable' payload' h)
      else if logType = loadJob then Inr None
      else if logType = mergeObjects then Inr None
      else if logType = copyObject then Inr None
      else if logType = propagateObject then Inr None
      else if logType = undoAction then Inr None
      else if logType = redoAction then Inr None
      else if logType = sendUserActivity then Inr None
      else if logType = sendException then Inr None
      else returned (Log_constructor env logType isDurable' payload' h))"

section \<open>The logger storage\<close>

text \<open>\<open>Date.now().toString().substr(-6)\<close>: the last six characters of the decimal text.\<close>

definition LoggerStorage_constructor :: "host \<Rightarrow> LoggerStorage" where
  "LoggerStorage_constructor env =
     (let s = decimal (nat (Date_now env))
      in \<lparr>clientID = drop (length s - 6) s, collection = []\<rparr>)"

definition push :: "nat \<Rightarrow> world \<Rightarrow> world" where
  "push log' w = w\<lparr>storage := (storage w)\<lparr>collection := collection (storage w) @ [log']\<rparr>\<rparr>"

text \<open>
  \<open>LoggerStorage.prototype.put.implementation\<close>. \<open>Log\<close> is what \<open>log.js\<close> exports, the base
  class, and it is called with two arguments: the tag, and the object
  \<open>{ ...payload, client_id: this.clientID }\<close> in the place of \<open>isDurable\<close>; its third
  parameter is \<open>undefined\<close>. With a true \<open>wait\<close> the field \<open>onCloseCallback\<close> of the new
  object is called as a function; the arrow function that would push the record is only
  the argument of that call. The result is the reference to the new \<open>Log\<close> object.
\<close>

definition put_implementation ::
  "host \<Rightarrow> LogType \<Rightarrow> jsval \<Rightarrow> jsval \<Rightarrow> world \<Rightarrow> error + (nat \<times> world)" where
  "put_implementation env logType wait payload' w =
     (let arg = length (heap w);
          h1 = heap w @ [set_prop ''client_id'' (JStr (clientID (storage w)))
                           (own_props (heap w) payload')]
      in case Log_constructor env logType (JRef arg) JUndefined h1 of
           Inl e \<Rightarrow> Inl e
         | Inr r \<Rightarrow>
             (let log' = length (logs w);
                  w1 = w\<lparr>heap := snd r, logs := logs w @ [fst r]\<rparr>
              in if truthy wait
                 then (case onCloseCallback (fst r) of
                         None \<Rightarrow> Inl (TypeError ''log.onCloseCallback is not a function'')
                       | Some f \<Rightarrow> Inr (log', invoke f w1))
                 else Inr (log', push log' w1)))"

text \<open>
  \<open>LoggerStorage.prototype.save.implementation\<close>. \<open>server.logs.save\<close> belongs to the server
  proxy and is a parameter: what becomes of the promise it returns for a given array,
  \<open>None\<close> when it is fulfilled, \<open>Some e\<close> when it is rejected with \<open>e\<close>. \<open>save_request\<close> is the
  array built before the call; \<open>save_resume\<close> is the rest of the function, which runs once
  the promise is settled; \<open>save_implementation\<close> runs both with nothing in between.
\<close>

definition save_request :: "world \<Rightarrow> body list" where
  "save_request w = map (\<lambda>log'. dump (heap w) (logs w ! log')) (collection (storage w))"

definition save_resume :: "error option \<Rightarrow> world \<Rightarrow> error option \<times> world" where
  "save_resume settled w =
     (case settled of
        Some e \<Rightarrow> (Some e, w)
      | None \<Rightarrow> (None, w\<lparr>storage := (storage w)\<lparr>collection := []\<rparr>\<rparr>))"

definition save_implementation ::
  "(body list \<Rightarrow> error option) \<Rightarrow> world \<Rightarrow> error option \<times> world" where
  "save_implementation transport w = save_resume (transport (save_request w)) w"


section \<open>Notions used in the statements\<close>

text \<open>The properties of the object a record's \<open>payload\<close> field points to.\<close>

definition properties :: "heap \<Rightarrow> Log \<Rightarrow> props" where
  "properties h l = own_props h (JRef (payload l))"

text \<open>The three keys that \<open>dump\<close> moves to the top level.\<close>

definition reserved :: "string set" where
  "reserved = {''client_id'', ''job_id'', ''task_id''}"

text \<open>
  What it means for a value to be JSON-serializable, said without the traversal: \<open>x\<close> is
  reached from \<open>v\<close> when it is \<open>v\<close> or sits in it at any depth; an object is circular when
  it is reached from one of its own properties; a value is serializable when it reaches
  neither a BigInt nor a circular object.
\<close>

inductive reach :: "heap \<Rightarrow> jsval \<Rightarrow> jsval \<Rightarrow> bool" for h :: heap where
  here: "reach h v v"
| inside: "a < length h \<Longrightarrow> (k, v) \<in> set (h ! a) \<Longrightarrow> reach h v x \<Longrightarrow> reach h (JRef a) x"

code_pred reach .

definition circular :: "heap \<Rightarrow> addr \<Rightarrow> bool" where
  "circular h a = (\<exists>k v. a < length h \<and> (k, v) \<in> set (h ! a) \<and> reach h v (JRef a))"

definition json_serializable :: "heap \<Rightarrow> jsval \<Rightarrow> bool" where
  "json_serializable h v =
     (\<not> (\<exists>n. reach h v (JBigInt n)) \<and> \<not> (\<exists>a. reach h v (JRef a) \<and> circular h a))"

text \<open>What the traversal stops at when it runs below the objects of \<open>stack\<close>.\<close>

definition flawed :: "heap \<Rightarrow> addr list \<Rightarrow> jsval \<Rightarrow> bool" where
  "flawed h stack v =
     ((\<exists>n. reach h v (JBigInt n)) \<or> (\<exists>b \<in> set stack. reach h v (JRef b))
      \<or> (\<exists>b. reach h v (JRef b) \<and> circular h b))"

text \<open>The duration \<open>close\<close> computes for a record: the clock minus the time of creation.\<close>

definition elapsed :: "host \<Rightarrow> Log \<Rightarrow> jsval" where
  "elapsed env l = JNum (Finite (of_int (Date_now env - time l)))"

text \<open>A sequence of calls of \<open>close\<close> on one record, each with its host and its argument,
  up to the first that raises.\<close>

fun closes :: "nat \<Rightarrow> (host \<times> jsval) list \<Rightarrow> world \<Rightarrow> error + world" where
  "closes this [] w = Inr w"
| "closes this (c # cs) w =
     (case close_implementation (fst c) (snd c) this w of
        Inl e \<Rightarrow> Inl e
      | Inr w' \<Rightarrow> closes this cs w')"

text \<open>A value that is an integer not less than 1.\<close>

definition count_ok :: "jsval \<Rightarrow> bool" where
  "count_ok v = (\<exists>n::int. 1 \<le> n \<and> v = JNum (Finite (of_int n)))"

section \<open>Properties as finite maps\<close>

lemma map_of_set_prop: "map_of (set_prop k v ps) = (map_of ps)(k \<mapsto> v)"
  by (induction ps) (auto simp: fun_eq_iff)

lemma map_of_delete_prop: "map_of (delete_prop k ps) = (map_of ps)(k := None)"
  unfolding delete_prop_def by (induction ps) (auto simp: fun_eq_iff)

lemma map_of_fold_set_prop:
  "distinct (map fst b) \<Longrightarrow>
   map_of (fold (\<lambda>p. set_prop (fst p) (snd p)) b a) = map_of a ++ map_of b"
proof (induction b arbitrary: a)
  case Nil
  show ?case by simp
next
  case (Cons p b)
  let ?f = "\<lambda>p. set_prop (fst p) (snd p)"
  from Cons.prems have fresh: "fst p \<notin> fst ` set b" and dist: "distinct (map fst b)"
    by auto
  have none: "map_of b (fst p) = None"
    using fresh by (simp add: map_of_eq_None_iff)
  have step: "(map_of a)(fst p \<mapsto> snd p) ++ map_of b = map_of a ++ map_of (p # b)"
  proof (rule ext)
    fix k
    show "((map_of a)(fst p \<mapsto> snd p) ++ map_of b) k = (map_of a ++ map_of (p # b)) k"
      using none by (cases p) (simp add: map_add_def split: option.splits)
  qed
  have "map_of (fold ?f (p # b) a) = map_of (fold ?f b (set_prop (fst p) (snd p) a))"
    by simp
  also have "\<dots> = map_of (set_prop (fst p) (snd p) a) ++ map_of b"
    by (rule Cons.IH [OF dist])
  also have "\<dots> = (map_of a)(fst p \<mapsto> snd p) ++ map_of b"
    by (simp only: map_of_set_prop)
  also note step
  finally show ?case .
qed

lemma map_of_spread:
  "distinct (map fst b) \<Longrightarrow> map_of (spread a b) = map_of a ++ map_of b"
  unfolding spread_def by (rule map_of_fold_set_prop)

lemma spread_Nil: "spread a [] = a"
  by (simp add: spread_def)

lemma has_prop_delete_prop: "has_prop k (delete_prop k' ps) = (k \<noteq> k' \<and> has_prop k ps)"
  by (simp add: has_prop_def map_of_delete_prop)

lemma read_prop_delete_prop: "k \<noteq> k' \<Longrightarrow> read_prop k (delete_prop k' ps) = read_prop k ps"
  by (simp add: read_prop_def map_of_delete_prop)

lemma Some_read_prop: "has_prop k ps \<Longrightarrow> Some (read_prop k ps) = map_of ps k"
  by (auto simp: has_prop_def read_prop_def)

lemma own_props_after_copy: "own_props (h @ [own_props h v]) v = own_props h v"
  by (cases v) (auto simp: nth_append)

lemma own_props_append: "a < length h \<Longrightarrow> own_props (h @ hs) (JRef a) = h ! a"
  by (simp add: nth_append)

lemma distinct_set_prop: "distinct (map fst ps) \<Longrightarrow> distinct (map fst (set_prop k v ps))"
proof (induction ps)
  case Nil
  show ?case by simp
next
  case (Cons p ps)
  have "fst ` set (set_prop k v ps) = insert k (fst ` set ps)"
    by (induction ps) auto
  with Cons show ?case by auto
qed

section \<open>\<open>JSON.stringify\<close> raises exactly on the values that are not serializable\<close>

lemma stringify_props_fails:
  "(k, v) \<in> set ps \<Longrightarrow> stringify_value h stack v \<noteq> None \<Longrightarrow> stringify_props h stack ps \<noteq> None"
  by (induction ps) (auto split: option.splits)

lemma stringify_object_fails:
  assumes "a < length h" and "(k, v) \<in> set (h ! a)" and "stringify_value h (a # stack) v \<noteq> None"
  shows "stringify_value h stack (JRef a) \<noteq> None"
  using assms stringify_props_fails [of k v "h ! a" h "a # stack"] by simp

lemma reach_BigInt_fails:
  "reach h v x \<Longrightarrow> x = JBigInt n \<Longrightarrow> stringify_value h stack v \<noteq> None"
proof (induction arbitrary: stack rule: reach.induct)
  case (here v)
  then show ?case by simp
next
  case (inside a k v x)
  then show ?case by (intro stringify_object_fails [of a h k v]) simp_all
qed

lemma reach_stack_fails:
  "reach h v x \<Longrightarrow> x = JRef b \<Longrightarrow> b \<in> set stack \<Longrightarrow> stringify_value h stack v \<noteq> None"
proof (induction arbitrary: stack rule: reach.induct)
  case (here v)
  then show ?case by simp
next
  case (inside a k v x)
  then show ?case by (intro stringify_object_fails [of a h k v]) simp_all
qed

lemma reach_circular_fails:
  "reach h v x \<Longrightarrow> x = JRef b \<Longrightarrow> circular h b \<Longrightarrow> stringify_value h stack v \<noteq> None"
proof (induction arbitrary: stack rule: reach.induct)
  case (here v)
  from here obtain k v' where b: "b < length h" and kv: "(k, v') \<in> set (h ! b)"
    and again: "reach h v' (JRef b)"
    by (auto simp: circular_def)
  have "stringify_value h (b # stack) v' \<noteq> None"
    by (rule reach_stack_fails [OF again refl]) simp
  with b kv have "stringify_value h stack (JRef b) \<noteq> None"
    by (rule stringify_object_fails)
  with here show ?case by simp
next
  case (inside a k v x)
  then show ?case by (intro stringify_object_fails [of a h k v]) simp_all
qed

lemma flawed_inside:
  assumes a: "a < length h" and kv: "(k, v) \<in> set (h ! a)" and f: "flawed h (a # stack) v"
  shows "flawed h stack (JRef a)"
proof -
  from f consider n where "reach h v (JBigInt n)"
    | "reach h v (JRef a)"
    | b where "b \<in> set stack" "reach h v (JRef b)"
    | b where "reach h v (JRef b)" "circular h b"
    by (auto simp: flawed_def)
  then show ?thesis
  proof cases
    case 1
    with a kv have "reach h (JRef a) (JBigInt n)" by (rule reach.inside)
    then show ?thesis by (auto simp: flawed_def)
  next
    case 2
    with a kv have "circular h a" by (auto simp: circular_def)
    moreover have "reach h (JRef a) (JRef a)" by (rule reach.here)
    ultimately show ?thesis by (auto simp: flawed_def)
  next
    case 3
    from a kv 3(2) have "reach h (JRef a) (JRef b)" by (rule reach.inside)
    with 3(1) show ?thesis by (auto simp: flawed_def)
  next
    case 4
    from a kv 4(1) have "reach h (JRef a) (JRef b)" by (rule reach.inside)
    with 4(2) show ?thesis by (auto simp: flawed_def)
  qed
qed

lemma stringify_fails_flawed:
  "stringify_value h stack v \<noteq> None \<Longrightarrow> flawed h stack v"
  "stringify_props h stack ps \<noteq> None \<Longrightarrow> \<exists>k v. (k, v) \<in> set ps \<and> flawed h stack v"
proof (induction h stack v and h stack ps rule: stringify_value_stringify_props.induct)
  case (1 h stack a)
  show ?case
  proof (cases "a \<in> set stack")
    case True
    moreover have "reach h (JRef a) (JRef a)" by (rule reach.here)
    ultimately show ?thesis unfolding flawed_def by blast
  next
    case False
    with 1(2) have a: "a < length h" and "stringify_props h (a # stack) (h ! a) \<noteq> None"
      by (auto split: if_splits)
    with 1(1) False obtain k v where "(k, v) \<in> set (h ! a)" "flawed h (a # stack) v"
      by blast
    with a show ?thesis by (intro flawed_inside)
  qed
next
  case (2 h stack n)
  have "reach h (JBigInt n) (JBigInt n)" by (rule reach.here)
  then show ?case unfolding flawed_def by blast
next
  case (9 h stack p ps)
  show ?case
  proof (cases "stringify_value h stack (snd p)")
    case None
    with 9 obtain k v where "(k, v) \<in> set ps" "flawed h stack v" by auto
    then show ?thesis by auto
  next
    case (Some e)
    with 9(1) have "flawed h stack (snd p)" by simp
    then have "(fst p, snd p) \<in> set (p # ps) \<and> flawed h stack (snd p)" by simp
    then show ?thesis by blast
  qed
qed simp_all

lemma JSON_stringify_serializable:
  "JSON_stringify h v = None \<longleftrightarrow> json_serializable h v"
proof
  assume ok: "JSON_stringify h v = None"
  show "json_serializable h v"
    unfolding json_serializable_def
  proof (intro conjI notI; elim exE conjE)
    fix n assume "reach h v (JBigInt n)"
    then have "stringify_value h [] v \<noteq> None" by (rule reach_BigInt_fails) simp
    with ok show False by (simp add: JSON_stringify_def)
  next
    fix a assume "reach h v (JRef a)" "circular h a"
    then have "stringify_value h [] v \<noteq> None" by (intro reach_circular_fails [of h v _ a]) simp_all
    with ok show False by (simp add: JSON_stringify_def)
  qed
next
  assume ser: "json_serializable h v"
  show "JSON_stringify h v = None"
  proof (rule ccontr)
    assume "JSON_stringify h v \<noteq> None"
    then have "flawed h [] v" unfolding JSON_stringify_def by (rule stringify_fails_flawed)
    with ser show False by (auto simp: flawed_def json_serializable_def)
  qed
qed


section \<open>Serialisation of a record\<close>

lemma dump_payload:
  "map_of (body_payload (dump h l)) = map_of (properties h l) |` (- reserved)"
  by (auto simp: dump_def Let_def properties_def reserved_def map_of_delete_prop fun_eq_iff
      restrict_map_def has_prop_def split: option.splits)

lemma dump_client_id: "body_client_id (dump h l) = map_of (properties h l) ''client_id''"
  by (auto simp: dump_def Let_def properties_def has_prop_def read_prop_def split: option.splits)

lemma dump_job_id: "body_job_id (dump h l) = map_of (properties h l) ''job_id''"
  by (auto simp: dump_def Let_def properties_def has_prop_def read_prop_def map_of_delete_prop
      split: option.splits)

lemma dump_task_id: "body_task_id (dump h l) = map_of (properties h l) ''task_id''"
  by (auto simp: dump_def Let_def properties_def has_prop_def read_prop_def map_of_delete_prop
      split: option.splits)

lemma dump_is_active: "body_is_active (dump h l) = isActive l"
  by (auto simp: dump_def Let_def split: option.splits)

lemma dump_name_time: "body_name (dump h l) = type l \<and> body_time (dump h l) = time l"
  by (auto simp: dump_def Let_def split: option.splits)

text \<open>
  C4. In the object \<open>dump\<close> returns, the nested payload has none of the keys \<open>client_id\<close>,
  \<open>job_id\<close>, \<open>task_id\<close> and keeps every other property of the record's payload; each of the
  three keys appears at the top level exactly when the record's payload has it, with its
  value; \<open>is_active\<close> is present exactly when \<open>isActive\<close> is defined. This holds for every
  record, whatever its payload.
\<close>

theorem dump_lifts_reserved_keys:
  "\<not> has_prop ''client_id'' (body_payload (dump h l))
   \<and> \<not> has_prop ''job_id'' (body_payload (dump h l))
   \<and> \<not> has_prop ''task_id'' (body_payload (dump h l))
   \<and> map_of (body_payload (dump h l)) = map_of (properties h l) |` (- reserved)
   \<and> body_client_id (dump h l) = map_of (properties h l) ''client_id''
   \<and> body_job_id (dump h l) = map_of (properties h l) ''job_id''
   \<and> body_task_id (dump h l) = map_of (properties h l) ''task_id''
   \<and> body_is_active (dump h l) = isActive l"
  using dump_payload [of h l] dump_client_id [of h l] dump_job_id [of h l]
    dump_task_id [of h l] dump_is_active [of h l]
  by (simp add: has_prop_def reserved_def)

theorem dump_lifts_reserved_keys_witness:
  "\<not> has_prop ''client_id''
       (body_payload (dump [[(''a'', JNull), (''client_id'', JStr ''123456'')]]
          \<lparr>type = otherLogType 0, isDurable = JBool False, payload = 0,
           onCloseCallback = None, time = 5, isActive = Some True\<rparr>))
   \<and> body_client_id (dump [[(''a'', JNull), (''client_id'', JStr ''123456'')]]
          \<lparr>type = otherLogType 0, isDurable = JBool False, payload = 0,
           onCloseCallback = None, time = 5, isActive = Some True\<rparr>) = Some (JStr ''123456'')
   \<and> body_is_active (dump [[(''a'', JNull), (''client_id'', JStr ''123456'')]]
          \<lparr>type = otherLogType 0, isDurable = JBool False, payload = 0,
           onCloseCallback = None, time = 5, isActive = Some True\<rparr>) = Some True"
  using dump_lifts_reserved_keys [of "[[(''a'', JNull), (''client_id'', JStr ''123456'')]]"
      "\<lparr>type = otherLogType 0, isDurable = JBool False, payload = 0,
        onCloseCallback = None, time = 5, isActive = Some True\<rparr>"]
  by (simp add: properties_def)

section \<open>Construction of a record\<close>

text \<open>
  C8. The constructor of \<open>Log\<close> raises exactly when the payload is not JSON-serializable,
  and what it raises is an \<open>ArgumentError\<close>; a failing construction returns no record.
  A successful one points the record at a new object holding the payload's own
  properties, so that writing afterwards to any object that existed before, the caller's
  payload among them, leaves the properties of the record's payload as they were.
\<close>

theorem Log_constructor_serializable:
  "((\<exists>e. Log_constructor env logType d p h = Inl e) \<longleftrightarrow> \<not> json_serializable h p)
   \<and> (\<forall>e. Log_constructor env logType d p h = Inl e \<longrightarrow> (\<exists>msg. e = ArgumentError msg))
   \<and> (\<forall>l h'. Log_constructor env logType d p h = Inr (l, h') \<longrightarrow>
         payload l = length h \<and> h' = h @ [own_props h p]
         \<and> (\<forall>a ps. a < length h \<longrightarrow> properties (h'[a := ps]) l = own_props h p))"
proof (cases "JSON_stringify h p")
  case None
  then have "json_serializable h p" by (simp add: JSON_stringify_serializable)
  with None show ?thesis
    by (auto simp: Log_constructor_def properties_def nth_append list_update_append)
next
  case (Some e)
  then have "\<not> json_serializable h p" by (simp flip: JSON_stringify_serializable)
  with Some show ?thesis
    by (simp add: Log_constructor_def not_serializable_def)
qed

theorem Log_constructor_serializable_witness:
  "\<not> json_serializable [[(''self'', JRef 0)]] (JRef 0)
   \<and> json_serializable [[(''a'', JNum (Finite 1))]] (JRef 0)
   \<and> properties ([[(''a'', JNum (Finite 1))], [(''a'', JNum (Finite 1))]][0 := [(''a'', JNull)]])
        \<lparr>type = otherLogType 0, isDurable = JBool False, payload = 1, onCloseCallback = None,
         time = 5, isActive = None\<rparr> = [(''a'', JNum (Finite 1))]"
proof -
  let ?env = "\<lparr>Date_now = 5, hasFocus = None, logType_text = ''0''\<rparr>"
  have 1: "Log_constructor ?env (otherLogType 0) (JBool False) (JRef 0) [[(''self'', JRef 0)]]
      = Inl (not_serializable Circular)"
    by (simp add: Log_constructor_def JSON_stringify_def)
  have 2: "Log_constructor ?env (otherLogType 0) (JBool False) (JRef 0) [[(''a'', JNum (Finite 1))]]
      = Inr (\<lparr>type = otherLogType 0, isDurable = JBool False, payload = 1, onCloseCallback = None,
         time = 5, isActive = None\<rparr>, [[(''a'', JNum (Finite 1))], [(''a'', JNum (Finite 1))]])"
    by (simp add: Log_constructor_def JSON_stringify_def)
  show ?thesis
    using Log_constructor_serializable [of ?env "otherLogType 0" "JBool False" "JRef 0"
        "[[(''self'', JRef 0)]]"]
      Log_constructor_serializable [of ?env "otherLogType 0" "JBool False" "JRef 0"
        "[[(''a'', JNum (Finite 1))]]"] 1 2
    by (simp add: properties_def)
qed


section \<open>The factory\<close>

text \<open>
  C7. For each of the eight tags that \<open>logFactory\<close> recognises without constructing
  anything, and for every payload, the call returns \<open>undefined\<close> and raises nothing.
\<close>

theorem logFactory_unimplemented:
  "logType \<in> {loadJob, mergeObjects, copyObject, propagateObject, undoAction, redoAction,
               sendUserActivity, sendException}
   \<Longrightarrow> logFactory env logType isDurable' payload' h = Inr None"
  by (auto simp: logFactory_def)

theorem logFactory_unimplemented_witness:
  "sendException \<in> {loadJob, mergeObjects, copyObject, propagateObject, undoAction, redoAction,
               sendUserActivity, sendException}
   \<and> logFactory \<lparr>Date_now = 0, hasFocus = None, logType_text = ''22''\<rparr>
        sendException (JBool False) (JRef 0) [[(''self'', JRef 0)]] = Inr None"
  using logFactory_unimplemented [of sendException
      "\<lparr>Date_now = 0, hasFocus = None, logType_text = ''22''\<rparr>" "JBool False" "JRef 0"
      "[[(''self'', JRef 0)]]"]
  by simp

section \<open>Flushing the storage\<close>

text \<open>
  C1. \<open>save\<close> builds the array of the dumps of the records in \<open>collection\<close>, in the order of
  the collection, and passes it to the transport. The collection is replaced by the empty
  array in the continuation that runs when the transport's promise is fulfilled; when the
  promise is rejected the error is passed on and the state, the collection included, is
  what it was.
\<close>

theorem save_implementation_flush:
  "length (save_request w) = length (collection (storage w))
   \<and> (\<forall>i < length (collection (storage w)).
        save_request w ! i = dump (heap w) (logs w ! (collection (storage w) ! i)))
   \<and> save_implementation transport w = save_resume (transport (save_request w)) w
   \<and> (transport (save_request w) = None \<longrightarrow>
        save_implementation transport w = (None, w\<lparr>storage := (storage w)\<lparr>collection := []\<rparr>\<rparr>))
   \<and> (\<forall>e. transport (save_request w) = Some e \<longrightarrow> save_implementation transport w = (Some e, w))
   \<and> (\<forall>e w'. snd (save_resume (Some e) w') = w')
   \<and> (\<forall>w'. collection (storage (snd (save_resume None w'))) = [])"
  by (simp add: save_implementation_def save_resume_def save_request_def)


theorem save_implementation_flush_witness:
  "collection (storage (snd (save_implementation
      (\<lambda>bs. if length bs = 1 then Some (TransportError ''503'') else None)
      \<lparr>heap = [[(''a'', JNull)]],
       logs = [\<lparr>type = otherLogType 0, isDurable = JBool False, payload = 0,
                onCloseCallback = None, time = 5, isActive = None\<rparr>],
       storage = \<lparr>clientID = ''123456'', collection = [0]\<rparr>, called = []\<rparr>))) = [0]
   \<and> collection (storage (snd (save_implementation (\<lambda>bs. None)
      \<lparr>heap = [[(''a'', JNull)]],
       logs = [\<lparr>type = otherLogType 0, isDurable = JBool False, payload = 0,
                onCloseCallback = None, time = 5, isActive = None\<rparr>],
       storage = \<lparr>clientID = ''123456'', collection = [0]\<rparr>, called = []\<rparr>))) = []"
proof -
  let ?w = "\<lparr>heap = [[(''a'', JNull)]],
       logs = [\<lparr>type = otherLogType 0, isDurable = JBool False, payload = 0,
                onCloseCallback = None, time = 5, isActive = None\<rparr>],
       storage = \<lparr>clientID = ''123456'', collection = [0]\<rparr>, called = []\<rparr>"
  let ?t = "\<lambda>bs :: body list. if length bs = 1 then Some (TransportError ''503'') else None"
  have len: "length (save_request ?w) = 1"
    using save_implementation_flush [of ?w ?t] by simp
  then have "?t (save_request ?w) = Some (TransportError ''503'')" by simp
  with save_implementation_flush [of ?w ?t]
  have 1: "save_implementation ?t ?w = (Some (TransportError ''503''), ?w)" by blast
  have "(\<lambda>bs :: body list. None :: error option) (save_request ?w) = None" by simp
  with save_implementation_flush [of ?w "\<lambda>bs. None"]
  have 2: "save_implementation (\<lambda>bs. None) ?w = (None, ?w\<lparr>storage := (storage ?w)\<lparr>collection := []\<rparr>\<rparr>)"
    by blast
  show ?thesis unfolding 1 2 by simp
qed


section \<open>Closing a record\<close>

lemma close_implementation_succeeds:
  "typeof p = ''object'' \<Longrightarrow> JSON_stringify (heap w) p = None \<Longrightarrow>
   \<exists>w'. close_implementation env p this w = Inr w'"
  by (simp add: close_implementation_def Let_def)

lemma close_implementation_fails:
  "close_implementation env p this w = Inl e \<Longrightarrow>
   typeof p \<noteq> ''object'' \<or> JSON_stringify (heap w) p \<noteq> None"
  by (auto simp: close_implementation_def Let_def split: if_splits option.splits)

lemma properties_after_close:
  assumes "close_implementation env p this w = Inr w'"
    and "this < length (logs w)" and "payload (logs w ! this) < length (heap w)"
  shows "properties (heap w') (logs w' ! this) =
     spread (set_prop ''duration'' (elapsed env (logs w ! this))
               (properties (heap w) (logs w ! this)))
            (own_props ((heap w)[payload (logs w ! this) :=
                set_prop ''duration'' (elapsed env (logs w ! this))
                  (properties (heap w) (logs w ! this))]) p)"
  using assms
  by (auto simp: close_implementation_def Let_def properties_def invoke_def nth_append elapsed_def
      split: option.splits if_splits)

lemma own_props_update_other:
  "p \<noteq> JRef a \<Longrightarrow> own_props (h[a := ps]) p = own_props h p"
  by (cases p) auto

lemma called_after_close:
  assumes "close_implementation env p this w = Inr w'" and "this < length (logs w)"
  shows "called w' = called w @ (case onCloseCallback (logs w ! this) of Some c \<Rightarrow> [c] | None \<Rightarrow> [])"
    and "onCloseCallback (logs w' ! this) = onCloseCallback (logs w ! this)"
    and "storage w' = storage w"
    and "length (logs w') = length (logs w)"
  using assms
  by (auto simp: close_implementation_def Let_def invoke_def split: option.splits if_splits)


lemma elapsed_integer:
  "time l \<le> Date_now env \<Longrightarrow> Number_isInteger (elapsed env l) \<and> \<not> below (elapsed env l) 0"
  by (simp add: elapsed_def)

text \<open>
  C5. For an open record and a close payload that passes both checks of \<open>close\<close> (its
  \<open>typeof\<close> is \<open>object\<close> and it is JSON-serializable), \<open>close\<close> succeeds. It writes
  \<open>duration\<close>, the clock minus the time of creation, into the payload, and then merges the
  close payload over the result: a key of the close payload wins, \<open>duration\<close> included.
  The duration is an integer, and not negative when the clock has not gone back. When the
  close payload is the very object the record's payload points to, the duration has been
  written into it before it is merged, and the result is the payload with the new
  duration. The keys of an object are distinct.
\<close>

theorem close_duration_then_merge:
  assumes "this < length (logs w)" and "payload (logs w ! this) < length (heap w)"
    and "typeof p = ''object''" and "json_serializable (heap w) p"
    and "distinct (map fst (own_props (heap w) p))"
  shows "\<exists>w'. close_implementation env p this w = Inr w'
     \<and> (p \<noteq> JRef (payload (logs w ! this)) \<longrightarrow>
          map_of (properties (heap w') (logs w' ! this)) =
            (map_of (properties (heap w) (logs w ! this)))
              (''duration'' \<mapsto> elapsed env (logs w ! this))
            ++ map_of (own_props (heap w) p))
     \<and> (p = JRef (payload (logs w ! this)) \<longrightarrow>
          map_of (properties (heap w') (logs w' ! this)) =
            (map_of (properties (heap w) (logs w ! this)))
              (''duration'' \<mapsto> elapsed env (logs w ! this)))
     \<and> elapsed env (logs w ! this) = JNum (Finite (of_int (Date_now env - time (logs w ! this))))
     \<and> (time (logs w ! this) \<le> Date_now env \<longrightarrow>
          Number_isInteger (elapsed env (logs w ! this)) \<and> \<not> below (elapsed env (logs w ! this)) 0)"
proof -
  let ?l = "logs w ! this"
  let ?old = "properties (heap w) ?l"
  let ?X = "set_prop ''duration'' (elapsed env ?l) ?old"
  from assms(4) have "JSON_stringify (heap w) p = None"
    by (simp add: JSON_stringify_serializable)
  with assms(3) obtain w' where w': "close_implementation env p this w = Inr w'"
    using close_implementation_succeeds by blast
  have new: "properties (heap w') (logs w' ! this) =
      spread ?X (own_props ((heap w)[payload ?l := ?X]) p)"
    using properties_after_close [OF w' assms(1,2)] .
  have separate: "map_of (properties (heap w') (logs w' ! this)) =
      (map_of ?old)(''duration'' \<mapsto> elapsed env ?l) ++ map_of (own_props (heap w) p)"
    if "p \<noteq> JRef (payload ?l)"
    using that assms(5) by (simp add: new own_props_update_other map_of_spread map_of_set_prop)
  have same: "map_of (properties (heap w') (logs w' ! this)) =
      (map_of ?old)(''duration'' \<mapsto> elapsed env ?l)"
    if p: "p = JRef (payload ?l)"
  proof -
    from p assms(2,5) have "distinct (map fst ?old)" by (simp add: properties_def)
    then have "distinct (map fst ?X)" by (rule distinct_set_prop)
    then have "map_of (spread ?X ?X) = map_of ?X ++ map_of ?X" by (rule map_of_spread)
    also have "\<dots> = map_of ?X"
      by (auto simp: fun_eq_iff map_add_def split: option.splits)
    finally have "map_of (spread ?X ?X) = (map_of ?old)(''duration'' \<mapsto> elapsed env ?l)"
      by (simp only: map_of_set_prop)
    moreover from p assms(2) have "own_props ((heap w)[payload ?l := ?X]) p = ?X" by simp
    ultimately show ?thesis by (simp only: new)
  qed
  show ?thesis
    using w' separate same elapsed_integer [of ?l env] by (auto simp: elapsed_def)
qed


theorem close_duration_then_merge_witness:
  "\<exists>w'. close_implementation \<lparr>Date_now = 55, hasFocus = None, logType_text = ''0''\<rparr> (JRef 1) 0
       \<lparr>heap = [[(''a'', JNull), (''duration'', JNull)],
                [(''duration'', JStr ''x''), (''outcome'', JStr ''ok'')]],
        logs = [\<lparr>type = otherLogType 0, isDurable = JBool True, payload = 0,
                 onCloseCallback = None, time = 5, isActive = None\<rparr>],
        storage = \<lparr>clientID = ''123456'', collection = []\<rparr>, called = []\<rparr> = Inr w'
     \<and> map_of (properties (heap w') (logs w' ! 0)) ''a'' = Some JNull
     \<and> map_of (properties (heap w') (logs w' ! 0)) ''duration'' = Some (JStr ''x'')
     \<and> map_of (properties (heap w') (logs w' ! 0)) ''outcome'' = Some (JStr ''ok'')"
proof -
  let ?E = "\<lparr>Date_now = 55, hasFocus = None, logType_text = ''0''\<rparr>"
  let ?W = "\<lparr>heap = [[(''a'', JNull), (''duration'', JNull)],
                [(''duration'', JStr ''x''), (''outcome'', JStr ''ok'')]],
        logs = [\<lparr>type = otherLogType 0, isDurable = JBool True, payload = 0,
                 onCloseCallback = None, time = 5, isActive = None\<rparr>],
        storage = \<lparr>clientID = ''123456'', collection = []\<rparr>, called = []\<rparr>"
  have h1: "0 < length (logs ?W)" by simp
  have h2: "payload (logs ?W ! 0) < length (heap ?W)" by simp
  have h3: "typeof (JRef 1) = ''object''" by simp
  have "JSON_stringify (heap ?W) (JRef 1) = None" by (simp add: JSON_stringify_def)
  then have h4: "json_serializable (heap ?W) (JRef 1)" by (simp only: JSON_stringify_serializable)
  have h5: "distinct (map fst (own_props (heap ?W) (JRef 1)))" by simp
  from close_duration_then_merge [OF h1 h2 h3 h4 h5, of ?E]
  obtain w' where ok: "close_implementation ?E (JRef 1) 0 ?W = Inr w'"
    and sep: "JRef 1 \<noteq> JRef (payload (logs ?W ! 0)) \<longrightarrow>
          map_of (properties (heap w') (logs w' ! 0)) =
            (map_of (properties (heap ?W) (logs ?W ! 0)))
              (''duration'' \<mapsto> elapsed ?E (logs ?W ! 0))
            ++ map_of (own_props (heap ?W) (JRef 1))"
    by blast
  have "JRef 1 \<noteq> JRef (payload (logs ?W ! 0))" by simp
  with sep have m: "map_of (properties (heap w') (logs w' ! 0)) =
            (map_of (properties (heap ?W) (logs ?W ! 0)))
              (''duration'' \<mapsto> elapsed ?E (logs ?W ! 0))
            ++ map_of (own_props (heap ?W) (JRef 1))"
    by blast
  have "map_of (properties (heap w') (logs w' ! 0)) ''a'' = Some JNull"
    "map_of (properties (heap w') (logs w' ! 0)) ''duration'' = Some (JStr ''x'')"
    "map_of (properties (heap w') (logs w' ! 0)) ''outcome'' = Some (JStr ''ok'')"
    unfolding m by (simp_all add: properties_def)
  with ok show ?thesis by blast
qed


text \<open>
  C10. \<open>close(null)\<close> on an open record raises neither error: \<open>typeof null\<close> is \<open>object\<close> and
  \<open>null\<close> is serializable. The record's payload afterwards is the old payload with
  \<open>duration\<close> set, the same as after \<open>close({})\<close>, the call whose argument is a new empty
  object; the two calls also leave the same hook calls and the same storage.
\<close>

theorem close_null:
  assumes "this < length (logs w)" and "payload (logs w ! this) < length (heap w)"
  shows "\<exists>w1 w2. close_implementation env JNull this w = Inr w1
     \<and> close_implementation env (JRef (length (heap w))) this (w\<lparr>heap := heap w @ [[]]\<rparr>) = Inr w2
     \<and> properties (heap w1) (logs w1 ! this) =
         set_prop ''duration'' (elapsed env (logs w ! this)) (properties (heap w) (logs w ! this))
     \<and> properties (heap w2) (logs w2 ! this) = properties (heap w1) (logs w1 ! this)
     \<and> called w2 = called w1 \<and> storage w2 = storage w1"
proof -
  let ?l = "logs w ! this"
  let ?X = "set_prop ''duration'' (elapsed env ?l) (properties (heap w) ?l)"
  let ?w = "w\<lparr>heap := heap w @ [[]]\<rparr>"
  have "JSON_stringify (heap w) JNull = None" by (simp add: JSON_stringify_def)
  then obtain w1 where w1: "close_implementation env JNull this w = Inr w1"
    using close_implementation_succeeds [of JNull w env this] by auto
  have "JSON_stringify (heap ?w) (JRef (length (heap w))) = None"
    by (simp add: JSON_stringify_def)
  then obtain w2 where w2: "close_implementation env (JRef (length (heap w))) this ?w = Inr w2"
    using close_implementation_succeeds [of "JRef (length (heap w))" ?w env this] by auto
  have p1: "properties (heap w1) (logs w1 ! this) = ?X"
    using properties_after_close [OF w1 assms] by (simp add: spread_Nil)
  have this': "this < length (logs ?w)" and obj': "payload (logs ?w ! this) < length (heap ?w)"
    using assms by simp_all
  have old: "properties (heap ?w) (logs ?w ! this) = properties (heap w) ?l"
    using assms(2) by (simp add: properties_def nth_append)
  have "own_props ((heap ?w)[payload (logs ?w ! this) := ?X]) (JRef (length (heap w))) = []"
    using assms(2) by (simp add: nth_append)
  with properties_after_close [OF w2 this' obj'] old
  have p2: "properties (heap w2) (logs w2 ! this) = ?X"
    by (simp add: spread_Nil)
  have c: "called w2 = called w1" "storage w2 = storage w1"
    using called_after_close(1,3) [OF w1 assms(1)] called_after_close(1,3) [OF w2 this']
    by simp_all
  from w1 w2 p1 p2 c show ?thesis by simp
qed

theorem close_null_witness:
  "\<exists>w1. close_implementation \<lparr>Date_now = 55, hasFocus = None, logType_text = ''0''\<rparr> JNull 0
       \<lparr>heap = [[(''a'', JNull)]],
        logs = [\<lparr>type = otherLogType 0, isDurable = JBool True, payload = 0,
                 onCloseCallback = None, time = 5, isActive = None\<rparr>],
        storage = \<lparr>clientID = ''123456'', collection = []\<rparr>, called = []\<rparr> = Inr w1
     \<and> properties (heap w1) (logs w1 ! 0) = [(''a'', JNull), (''duration'', JNum (Finite 50))]"
proof -
  let ?E = "\<lparr>Date_now = 55, hasFocus = None, logType_text = ''0''\<rparr>"
  let ?W = "\<lparr>heap = [[(''a'', JNull)]],
        logs = [\<lparr>type = otherLogType 0, isDurable = JBool True, payload = 0,
                 onCloseCallback = None, time = 5, isActive = None\<rparr>],
        storage = \<lparr>clientID = ''123456'', collection = []\<rparr>, called = []\<rparr>"
  have h1: "0 < length (logs ?W)" by simp
  have h2: "payload (logs ?W ! 0) < length (heap ?W)" by simp
  from close_null [OF h1 h2, of ?E]
  obtain w1 where ok: "close_implementation ?E JNull 0 ?W = Inr w1"
    and p: "properties (heap w1) (logs w1 ! 0) =
         set_prop ''duration'' (elapsed ?E (logs ?W ! 0)) (properties (heap ?W) (logs ?W ! 0))"
    by blast
  have "set_prop ''duration'' (elapsed ?E (logs ?W ! 0)) (properties (heap ?W) (logs ?W ! 0))
      = [(''a'', JNull), (''duration'', JNum (Finite 50))]"
    by (simp add: elapsed_def properties_def)
  with ok p show ?thesis by simp
qed


section \<open>The close hook\<close>

lemma closes_called:
  "closes this cs w = Inr w' \<Longrightarrow> this < length (logs w) \<Longrightarrow>
   onCloseCallback (logs w ! this) = Some c \<Longrightarrow>
   called w' = called w @ replicate (length cs) c
   \<and> onCloseCallback (logs w' ! this) = Some c"
proof (induction cs arbitrary: w)
  case Nil
  then show ?case by simp
next
  case (Cons x cs)
  from Cons.prems(1) obtain w1 where
    w1: "close_implementation (fst x) (snd x) this w = Inr w1" and rest: "closes this cs w1 = Inr w'"
    by (auto split: sum.splits)
  note after = called_after_close [OF w1 Cons.prems(2)]
  from after(4) Cons.prems(2) have len: "this < length (logs w1)" by simp
  from after(2) Cons.prems(3) have hook: "onCloseCallback (logs w1 ! this) = Some c" by simp
  from Cons.IH [OF rest len hook] after(1) Cons.prems(3) show ?case
    by (simp add: replicate_append_same)
qed

lemma put_implementation_called:
  "put_implementation env logType wait q w = Inr (r, w') \<Longrightarrow> called w' = called w"
  by (auto simp: put_implementation_def Log_constructor_def Let_def push_def JSON_stringify_def
      split: if_splits)

text \<open>
  C9, as amended. For a record with a registered close hook, every call of \<open>close\<close> that
  succeeds calls the hook exactly once and leaves it registered, so a sequence of \<open>n\<close>
  successful calls of \<open>close\<close> fires it \<open>n\<close> times. Nothing else calls a hook: not
  \<open>onClose\<close>, not \<open>save\<close>, not \<open>put\<close>; a call of \<open>close\<close> that raises does so before any
  write.
\<close>

theorem close_fires_hook_every_time:
  assumes "this < length (logs w)" and "onCloseCallback (logs w ! this) = Some c"
  shows "(\<forall>w'. closes this cs w = Inr w' \<longrightarrow> called w' = called w @ replicate (length cs) c)
     \<and> (\<forall>w'. close_implementation env p this w = Inr w' \<longrightarrow>
           called w' = called w @ [c] \<and> onCloseCallback (logs w' ! this) = Some c)
     \<and> called (onClose c' r w) = called w
     \<and> called (snd (save_implementation transport w)) = called w
     \<and> (\<forall>r' w'. put_implementation env' logType wait q w = Inr (r', w') \<longrightarrow> called w' = called w)"
proof -
  have 1: "\<forall>w'. closes this cs w = Inr w' \<longrightarrow> called w' = called w @ replicate (length cs) c"
    using closes_called [OF _ assms] by blast
  have 2: "\<forall>w'. close_implementation env p this w = Inr w' \<longrightarrow>
           called w' = called w @ [c] \<and> onCloseCallback (logs w' ! this) = Some c"
    using called_after_close(1,2) [OF _ assms(1)] assms(2) by simp
  have 3: "called (onClose c' r w) = called w" by (simp add: onClose_def)
  have 4: "called (snd (save_implementation transport w)) = called w"
    by (simp add: save_implementation_def save_resume_def split: option.splits)
  have 5: "\<forall>r' w'. put_implementation env' logType wait q w = Inr (r', w') \<longrightarrow> called w' = called w"
    using put_implementation_called by blast
  from 1 2 3 4 5 show ?thesis by blast
qed

theorem close_fires_hook_every_time_witness:
  "closes 0 [(\<lparr>Date_now = 55, hasFocus = None, logType_text = ''0''\<rparr>, JNull)]
       \<lparr>heap = [[]],
        logs = [\<lparr>type = otherLogType 0, isDurable = JBool True, payload = 0,
                 onCloseCallback = Some (Callback 7), time = 5, isActive = None\<rparr>],
        storage = \<lparr>clientID = ''123456'', collection = []\<rparr>, called = []\<rparr>
   = Inr \<lparr>heap = [[(''duration'', JNum (Finite 50))], [(''duration'', JNum (Finite 50))]],
          logs = [\<lparr>type = otherLogType 0, isDurable = JBool True, payload = 1,
                   onCloseCallback = Some (Callback 7), time = 5, isActive = None\<rparr>],
          storage = \<lparr>clientID = ''123456'', collection = []\<rparr>, called = [Callback 7]\<rparr>
   \<and> called \<lparr>heap = [[(''duration'', JNum (Finite 50))], [(''duration'', JNum (Finite 50))]],
          logs = [\<lparr>type = otherLogType 0, isDurable = JBool True, payload = 1,
                   onCloseCallback = Some (Callback 7), time = 5, isActive = None\<rparr>],
          storage = \<lparr>clientID = ''123456'', collection = []\<rparr>, called = [Callback 7]\<rparr>
     = [] @ replicate 1 (Callback 7)"
proof -
  let ?W = "\<lparr>heap = [[]],
        logs = [\<lparr>type = otherLogType 0, isDurable = JBool True, payload = 0,
                 onCloseCallback = Some (Callback 7), time = 5, isActive = None\<rparr>],
        storage = \<lparr>clientID = ''123456'', collection = []\<rparr>, called = []\<rparr>"
  let ?W1 = "\<lparr>heap = [[(''duration'', JNum (Finite 50))], [(''duration'', JNum (Finite 50))]],
          logs = [\<lparr>type = otherLogType 0, isDurable = JBool True, payload = 1,
                   onCloseCallback = Some (Callback 7), time = 5, isActive = None\<rparr>],
          storage = \<lparr>clientID = ''123456'', collection = []\<rparr>, called = [Callback 7]\<rparr>"
  let ?cs = "[(\<lparr>Date_now = 55, hasFocus = None, logType_text = ''0''\<rparr>, JNull)]"
  have h1: "0 < length (logs ?W)" by simp
  have h2: "onCloseCallback (logs ?W ! 0) = Some (Callback 7)" by simp
  have run: "closes 0 ?cs ?W = Inr ?W1"
    by (simp add: close_implementation_def JSON_stringify_def Let_def invoke_def spread_def)
  from close_fires_hook_every_time [OF h1 h2, of ?cs] run
  have "called ?W1 = called ?W @ replicate (length ?cs) (Callback 7)" by blast
  with run show ?thesis by simp
qed


text \<open>The claim as stated fails: two calls of \<open>close\<close> on a record whose hook was registered
  with \<open>onClose\<close> call the hook twice.\<close>

theorem close_twice_fires_hook_twice:
  "closes 0 [(\<lparr>Date_now = 55, hasFocus = None, logType_text = ''0''\<rparr>, JNull),
             (\<lparr>Date_now = 60, hasFocus = None, logType_text = ''0''\<rparr>, JNull)]
     (onClose (Callback 7) 0
       \<lparr>heap = [[]],
        logs = [\<lparr>type = otherLogType 0, isDurable = JBool True, payload = 0,
                 onCloseCallback = None, time = 5, isActive = None\<rparr>],
        storage = \<lparr>clientID = ''123456'', collection = []\<rparr>, called = []\<rparr>)
   = Inr \<lparr>heap = [[(''duration'', JNum (Finite 50))], [(''duration'', JNum (Finite 55))],
                  [(''duration'', JNum (Finite 55))]],
          logs = [\<lparr>type = otherLogType 0, isDurable = JBool True, payload = 2,
                   onCloseCallback = Some (Callback 7), time = 5, isActive = None\<rparr>],
          storage = \<lparr>clientID = ''123456'', collection = []\<rparr>,
          called = [Callback 7, Callback 7]\<rparr>"
  by (simp add: onClose_def close_implementation_def JSON_stringify_def Let_def invoke_def
      spread_def)


section \<open>The delete-object record\<close>

lemma count_check: "(\<not> Number_isInteger v \<or> below v 1) = (\<not> count_ok v)"
proof (cases v)
  case (JNum x)
  show ?thesis
  proof (cases x)
    case (Finite q)
    have "(of_int \<lfloor>q\<rfloor> = q \<and> \<not> q < 1) = (\<exists>n::int. 1 \<le> n \<and> q = of_int n)"
    proof
      assume a: "of_int \<lfloor>q\<rfloor> = q \<and> \<not> q < 1"
      then have e: "q = of_int \<lfloor>q\<rfloor>" and g: "\<not> q < 1" by (blast intro: sym)+
      from g have "1 \<le> \<lfloor>q\<rfloor>" by simp
      with e have "1 \<le> \<lfloor>q\<rfloor> \<and> q = of_int \<lfloor>q\<rfloor>" by (rule conjI [rotated])
      then show "\<exists>n::int. 1 \<le> n \<and> q = of_int n" by (rule exI)
    next
      assume "\<exists>n::int. 1 \<le> n \<and> q = of_int n"
      then obtain n :: int where "1 \<le> n" "q = of_int n" by blast
      then show "of_int \<lfloor>q\<rfloor> = q \<and> \<not> q < 1" by simp
    qed
    with JNum Finite show ?thesis by (auto simp: count_ok_def)
  qed (simp_all add: JNum count_ok_def)
qed (simp_all add: count_ok_def)

lemma mentions_count: "sublist ''count'' (''The field '' @ quoted ''count'' @ rest)"
proof -
  have "''The field '' @ quoted ''count'' @ rest
      = (''The field '' @ [CHR 0x22]) @ ''count'' @ ([CHR 0x22] @ rest)"
    by (simp add: quoted_def)
  then show ?thesis by (simp only: sublist_appendI)
qed

text \<open>
  C6, as amended. For a payload that is JSON-serializable and neither \<open>undefined\<close> nor
  \<open>null\<close>, the constructor of \<open>DeleteObjectLog\<close> succeeds when \<open>payload.count\<close> is an integer
  not less than 1, and for every other value of \<open>payload.count\<close>, its absence included,
  raises an \<open>ArgumentError\<close> whose message names \<open>count\<close>.
\<close>

theorem DeleteObjectLog_count:
  assumes "json_serializable h p" and "\<not> nullish p"
  shows "(count_ok (lookup h p ''count'') \<longrightarrow>
            (\<exists>r. DeleteObjectLog_constructor env logType d p h = Inr r))
     \<and> (\<not> count_ok (lookup h p ''count'') \<longrightarrow>
            (\<exists>msg. DeleteObjectLog_constructor env logType d p h = Inl (ArgumentError msg)
                   \<and> sublist ''count'' msg))"
proof -
  from assms(1) have ser: "JSON_stringify h p = None"
    by (simp add: JSON_stringify_serializable)
  have same: "lookup (h @ [own_props h p]) p ''count'' = lookup h p ''count''"
    by (simp add: lookup_def own_props_after_copy)
  show ?thesis
  proof (cases "count_ok (lookup h p ''count'')")
    case True
    then have "\<not> (\<not> Number_isInteger (lookup h p ''count'') \<or> below (lookup h p ''count'') 1)"
      unfolding count_check by simp
    with ser assms(2) same True show ?thesis
      by (simp add: DeleteObjectLog_constructor_def Log_constructor_def)
  next
    case False
    then have "\<not> Number_isInteger (lookup h p ''count'') \<or> below (lookup h p ''count'') 1"
      unfolding count_check by simp
    with ser assms(2) same
    have "DeleteObjectLog_constructor env logType d p h =
        Inl (ArgumentError (''The field '' @ quoted ''count'' @ '' is required for ''
               @ quoted (logType_text env) @ '' log'' @ ''It must be a positive integer''))"
      by (simp add: DeleteObjectLog_constructor_def Log_constructor_def)
    with False mentions_count show ?thesis by blast
  qed
qed

theorem DeleteObjectLog_count_witness:
  "(\<exists>r. DeleteObjectLog_constructor \<lparr>Date_now = 5, hasFocus = None, logType_text = ''3''\<rparr>
          deleteObject (JBool False) (JRef 0) [[(''count'', JNum (Finite 2))]] = Inr r)
   \<and> (\<exists>msg. DeleteObjectLog_constructor \<lparr>Date_now = 5, hasFocus = None, logType_text = ''3''\<rparr>
          deleteObject (JBool False) (JRef 0) [[(''count'', JNum (Finite 0))]]
            = Inl (ArgumentError msg) \<and> sublist ''count'' msg)"
proof -
  let ?E = "\<lparr>Date_now = 5, hasFocus = None, logType_text = ''3''\<rparr>"
  let ?h2 = "[[(''count'', JNum (Finite 2))]]"
  let ?h0 = "[[(''count'', JNum (Finite 0))]]"
  have "JSON_stringify ?h2 (JRef 0) = None" by (simp add: JSON_stringify_def)
  then have s2: "json_serializable ?h2 (JRef 0)" by (simp only: JSON_stringify_serializable)
  have "JSON_stringify ?h0 (JRef 0) = None" by (simp add: JSON_stringify_def)
  then have s0: "json_serializable ?h0 (JRef 0)" by (simp only: JSON_stringify_serializable)
  have n: "\<not> nullish (JRef 0)" by (simp add: nullish_def)
  have "1 \<le> (2::int) \<and> JNum (Finite 2) = JNum (Finite (of_int 2))" by simp
  then have "count_ok (JNum (Finite 2))" unfolding count_ok_def by (rule exI)
  then have ok: "count_ok (lookup ?h2 (JRef 0) ''count'')" by (simp add: lookup_def read_prop_def)
  have "\<not> Number_isInteger (JNum (Finite 0)) \<or> below (JNum (Finite 0)) 1" by simp
  then have "\<not> count_ok (JNum (Finite 0))" unfolding count_check .
  then have bad: "\<not> count_ok (lookup ?h0 (JRef 0) ''count'')" by (simp add: lookup_def read_prop_def)
  from DeleteObjectLog_count [OF s2 n, of ?E deleteObject "JBool False"] ok
    DeleteObjectLog_count [OF s0 n, of ?E deleteObject "JBool False"] bad
  show ?thesis by blast
qed

text \<open>The claim as stated fails: the constructor of the base class runs first, and for a
  payload that is not serializable its error is raised, whose message does not name
  \<open>count\<close>, whatever \<open>payload.count\<close> is.\<close>

theorem DeleteObjectLog_not_serializable:
  "DeleteObjectLog_constructor \<lparr>Date_now = 5, hasFocus = None, logType_text = ''3''\<rparr>
     deleteObject (JBool False) (JRef 0) [[(''count'', JNum (Finite 0)), (''size'', JBigInt 10)]]
   = Inl (ArgumentError
       ''Log payload must be JSON serializable. TypeError: Do not know how to serialize a BigInt'')
   \<and> \<not> sublist ''count''
       ''Log payload must be JSON serializable. TypeError: Do not know how to serialize a BigInt''"
proof -
  have "DeleteObjectLog_constructor \<lparr>Date_now = 5, hasFocus = None, logType_text = ''3''\<rparr>
     deleteObject (JBool False) (JRef 0) [[(''count'', JNum (Finite 0)), (''size'', JBigInt 10)]]
   = Inl (ArgumentError
       ''Log payload must be JSON serializable. TypeError: Do not know how to serialize a BigInt'')"
    by (simp add: DeleteObjectLog_constructor_def Log_constructor_def JSON_stringify_def
        not_serializable_def)
  moreover have "\<not> sublist ''count''
       ''Log payload must be JSON serializable. TypeError: Do not know how to serialize a BigInt''"
    by code_simp
  ultimately show ?thesis by simp
qed

section \<open>Opening a record through the storage\<close>

text \<open>
  C2. What the code does on the scenario of the specification, a non-durable event with
  payload \<open>{a: 1}\<close>: the object with the caller's properties and \<open>client_id\<close> becomes the
  field \<open>isDurable\<close> of the record, the payload of the record is the empty object, and
  the array \<open>save\<close> would send carries neither \<open>a\<close> nor \<open>client_id\<close>.
\<close>

theorem put_implementation_drops_payload:
  "put_implementation \<lparr>Date_now = 1000, hasFocus = None, logType_text = ''X''\<rparr>
     (otherLogType 0) (JBool False) (JRef 0)
     \<lparr>heap = [[(''a'', JNum (Finite 1))]], logs = [],
      storage = \<lparr>clientID = ''123456'', collection = []\<rparr>, called = []\<rparr>
   = Inr (0,
       \<lparr>heap = [[(''a'', JNum (Finite 1))],
                [(''a'', JNum (Finite 1)), (''client_id'', JStr ''123456'')],
                []],
        logs = [\<lparr>type = otherLogType 0, isDurable = JRef 1, payload = 2,
                 onCloseCallback = None, time = 1000, isActive = None\<rparr>],
        storage = \<lparr>clientID = ''123456'', collection = [0]\<rparr>, called = []\<rparr>)
   \<and> save_request
       \<lparr>heap = [[(''a'', JNum (Finite 1))],
                [(''a'', JNum (Finite 1)), (''client_id'', JStr ''123456'')],
                []],
        logs = [\<lparr>type = otherLogType 0, isDurable = JRef 1, payload = 2,
                 onCloseCallback = None, time = 1000, isActive = None\<rparr>],
        storage = \<lparr>clientID = ''123456'', collection = [0]\<rparr>, called = []\<rparr>
     = [\<lparr>body_name = otherLogType 0, body_time = 1000, body_is_active = None,
         body_client_id = None, body_job_id = None, body_task_id = None, body_payload = []\<rparr>]"
proof -
  have 1: "put_implementation \<lparr>Date_now = 1000, hasFocus = None, logType_text = ''X''\<rparr>
     (otherLogType 0) (JBool False) (JRef 0)
     \<lparr>heap = [[(''a'', JNum (Finite 1))]], logs = [],
      storage = \<lparr>clientID = ''123456'', collection = []\<rparr>, called = []\<rparr>
   = Inr (0,
       \<lparr>heap = [[(''a'', JNum (Finite 1))],
                [(''a'', JNum (Finite 1)), (''client_id'', JStr ''123456'')],
                []],
        logs = [\<lparr>type = otherLogType 0, isDurable = JRef 1, payload = 2,
                 onCloseCallback = None, time = 1000, isActive = None\<rparr>],
        storage = \<lparr>clientID = ''123456'', collection = [0]\<rparr>, called = []\<rparr>)"
    by (simp add: put_implementation_def Log_constructor_def JSON_stringify_def Let_def push_def)
  have 2: "save_request
       \<lparr>heap = [[(''a'', JNum (Finite 1))],
                [(''a'', JNum (Finite 1)), (''client_id'', JStr ''123456'')],
                []],
        logs = [\<lparr>type = otherLogType 0, isDurable = JRef 1, payload = 2,
                 onCloseCallback = None, time = 1000, isActive = None\<rparr>],
        storage = \<lparr>clientID = ''123456'', collection = [0]\<rparr>, called = []\<rparr>
     = [\<lparr>body_name = otherLogType 0, body_time = 1000, body_is_active = None,
         body_client_id = None, body_job_id = None, body_task_id = None, body_payload = []\<rparr>]"
    by (simp add: save_request_def dump_def has_prop_def Let_def)
  from 1 2 show ?thesis by (rule conjI)
qed

text \<open>
  C3. What the code does when \<open>wait\<close> is true: the call of \<open>log.onCloseCallback\<close>, which is
  \<open>null\<close> on a new record, raises a \<open>TypeError\<close>; no hook is registered and no record is
  returned.
\<close>

theorem put_implementation_wait_raises:
  "put_implementation \<lparr>Date_now = 1000, hasFocus = None, logType_text = ''X''\<rparr>
     (otherLogType 0) (JBool True) (JRef 0)
     \<lparr>heap = [[(''a'', JNum (Finite 1))]], logs = [],
      storage = \<lparr>clientID = ''123456'', collection = []\<rparr>, called = []\<rparr>
   = Inl (TypeError ''log.onCloseCallback is not a function'')"
  by (simp add: put_implementation_def Log_constructor_def JSON_stringify_def Let_def)

end
